theory Spec2Isabelle
  imports Complex_Main "HOL-Library.Word"
begin

section \<open>The C string functions used by the lock recipe\<close>

text \<open>
  A C string is modelled by the list of its bytes before the terminating NUL.
  \<open>strcmp\<close> and \<open>strncmp\<close> compare bytes as \<open>unsigned char\<close> and return the difference
  of the first pair that differs, the terminator counting as byte 0; the callers in
  \<^verbatim>\<open>main.c\<close> only look at the sign of the result.
\<close>

definition byte :: "char \<Rightarrow> int" where
  "byte c = int (of_char c)"

fun strcmp :: "string \<Rightarrow> string \<Rightarrow> int" where
  "strcmp [] [] = 0"
| "strcmp [] (y # ys) = - byte y"
| "strcmp (x # xs) [] = byte x"
| "strcmp (x # xs) (y # ys) = (if x = y then strcmp xs ys else byte x - byte y)"

fun strncmp :: "string \<Rightarrow> string \<Rightarrow> nat \<Rightarrow> int" where
  "strncmp s1 s2 0 = 0"
| "strncmp [] [] (Suc n) = 0"
| "strncmp [] (y # ys) (Suc n) = - byte y"
| "strncmp (x # xs) [] (Suc n) = byte x"
| "strncmp (x # xs) (y # ys) (Suc n) = (if x = y then strncmp xs ys n else byte x - byte y)"

text \<open>
  \<open>strrchr s c\<close> is the part of \<open>s\<close> that starts at the last occurrence of \<open>c\<close>,
  or \<open>None\<close> for the NULL pointer when \<open>c\<close> does not occur.
\<close>

fun strrchr :: "string \<Rightarrow> char \<Rightarrow> string option" where
  "strrchr [] c = None"
| "strrchr (x # xs) c =
     (case strrchr xs c of
        Some r \<Rightarrow> Some r
      | None \<Rightarrow> if x = c then Some (x # xs) else None)"

section \<open>Ordering of the children (main.c, lines 72 to 91)\<close>

text \<open>
  \<open>vstrcmp\<close> compares two names by what follows their last \<open>-\<close>. It adds 1 to the
  result of \<open>strrchr\<close> without a check; on a name with no \<open>-\<close> that is a read through
  a pointer made from NULL, which the model returns as \<open>None\<close>.
\<close>

definition vstrcmp :: "string \<Rightarrow> string \<Rightarrow> int option" where
  "vstrcmp a b =
     (case strrchr a (CHR ''-'') of
        None \<Rightarrow> None
      | Some ra \<Rightarrow>
          (case strrchr b (CHR ''-'') of
             None \<Rightarrow> None
           | Some rb \<Rightarrow> Some (strcmp (tl ra) (tl rb))))"

text \<open>
  \<open>sort_children\<close> hands the vector to the C library's \<open>qsort\<close> with \<open>vstrcmp\<close> as
  the comparison. The library routine is modelled by an insertion sort that asks the same
  comparison; a comparison that is undefined makes the whole sort undefined.
\<close>

fun qsort_insert :: "string \<Rightarrow> string list \<Rightarrow> string list option" where
  "qsort_insert x [] = Some [x]"
| "qsort_insert x (y # ys) =
     (case vstrcmp x y of
        None \<Rightarrow> None
      | Some c \<Rightarrow>
          if c \<le> 0 then Some (x # y # ys)
          else (case qsort_insert x ys of
                  None \<Rightarrow> None
                | Some r \<Rightarrow> Some (y # r)))"

fun sort_children :: "string list \<Rightarrow> string list option" where
  "sort_children [] = Some []"
| "sort_children (x # xs) =
     (case sort_children xs of
        None \<Rightarrow> None
      | Some s \<Rightarrow> qsort_insert x s)"

text \<open>
  \<open>child_floor\<close> scans the whole array and keeps the last entry for which
  \<open>strcmp (entry, element) < 0\<close>; the comparison is on the whole names.
\<close>

fun child_floor_loop :: "string list \<Rightarrow> string \<Rightarrow> string option \<Rightarrow> string option" where
  "child_floor_loop [] element ret = ret"
| "child_floor_loop (d # ds) element ret =
     child_floor_loop ds element (if strcmp d element < 0 then Some d else ret)"

definition child_floor :: "string list \<Rightarrow> string \<Rightarrow> string option" where
  "child_floor sorted_data element = child_floor_loop sorted_data element None"

text \<open>\<open>getName\<close>: the part of a path after its last \<open>/\<close>, NULL when there is none.\<close>

definition getName :: "string \<Rightarrow> string option" where
  "getName str =
     (case strrchr str (CHR ''/'') of
        None \<Rightarrow> None
      | Some name \<Rightarrow> Some (tl name))"

text \<open>
  \<open>lookupnode\<close>: the first child that \<open>strncmp\<close> finds equal to the prefix on the
  prefix's length.
\<close>

fun lookupnode :: "string list \<Rightarrow> string \<Rightarrow> string option" where
  "lookupnode [] prefix = None"
| "lookupnode (child # rest) prefix =
     (if strncmp prefix child (length prefix) = 0 then Some child
      else lookupnode rest prefix)"

section \<open>The coordination service and the effects of the program\<close>

text \<open>
  The result codes and the creation flags come from the ZooKeeper client's header. The
  program only tests a result for being \<open>ZOK\<close>, \<open>ZCONNECTIONLOSS\<close> or \<open>ZNONODE\<close>,
  so the codes are a datatype with these three and one constructor for every other code;
  the two sets of flags that \<open>main\<close> passes to \<open>zoo_create\<close> are \<open>0\<close> and
  \<open>ZOO_EPHEMERAL|ZOO_SEQUENCE\<close>.
\<close>

datatype zoo_rc = ZOK | ZCONNECTIONLOSS | ZNONODE | ZOTHER int

datatype create_flags = Flags_0 | ZOO_EPHEMERAL_SEQUENCE

record timespec =
  tv_sec :: int
  tv_nsec :: int

text \<open>What a run does to the outside, in order.\<close>

datatype event =
    Zookeeper_init string
  | Zoo_exists string
  | Zoo_create string create_flags
  | Zoo_get_children string
  | Nanosleep timespec
  | Sleep nat
  | Print_stdout string
  | Print_stderr string
  | Zookeeper_close

text \<open>
  The service is outside the program: a run is determined by what the service answers to
  the calls in the order they are made. \<open>init_errno\<close> is \<open>None\<close> when
  \<open>zookeeper_init\<close> returns a handle and the value of \<open>errno\<close> when it returns NULL;
  \<open>client_id\<close> is the session id that \<open>zoo_client_id\<close> reports; the three reply
  functions give the answer to the n-th call of \<open>zoo_exists\<close>, \<open>zoo_create\<close> (result
  and the path written to the buffer) and \<open>zoo_get_children\<close> (result and the vector).
\<close>

record zk_env =
  init_errno :: "int option"
  client_id :: "64 word"
  exists_replies :: "nat \<Rightarrow> zoo_rc"
  create_replies :: "nat \<Rightarrow> zoo_rc \<times> string"
  children_replies :: "nat \<Rightarrow> zoo_rc \<times> string list"

record world =
  n_exists :: nat
  n_create :: nat
  n_children :: nat
  trace :: "event list"

definition world0 :: world where
  "world0 = \<lparr>n_exists = 0, n_create = 0, n_children = 0, trace = []\<rparr>"

definition emit :: "event \<Rightarrow> world \<Rightarrow> world" where
  "emit e w = w\<lparr>trace := trace w @ [e]\<rparr>"

definition nanosleep :: "timespec \<Rightarrow> world \<Rightarrow> world" where
  "nanosleep t w = emit (Nanosleep t) w"

definition zoo_exists :: "zk_env \<Rightarrow> string \<Rightarrow> world \<Rightarrow> zoo_rc \<times> world" where
  "zoo_exists env path w =
     (exists_replies env (n_exists w),
      emit (Zoo_exists path) (w\<lparr>n_exists := Suc (n_exists w)\<rparr>))"

definition zoo_create ::
  "zk_env \<Rightarrow> string \<Rightarrow> create_flags \<Rightarrow> world \<Rightarrow> (zoo_rc \<times> string) \<times> world" where
  "zoo_create env path flags w =
     (create_replies env (n_create w),
      emit (Zoo_create path flags) (w\<lparr>n_create := Suc (n_create w)\<rparr>))"

definition zoo_get_children ::
  "zk_env \<Rightarrow> string \<Rightarrow> world \<Rightarrow> (zoo_rc \<times> string list) \<times> world" where
  "zoo_get_children env path w =
     (children_replies env (n_children w),
      emit (Zoo_get_children path) (w\<lparr>n_children := Suc (n_children w)\<rparr>))"

definition newline :: string where
  "newline = [CHR 0x0A]"

section \<open>retry_getchildren (main.c, lines 106 to 118)\<close>

text \<open>
  The loop of \<open>retry_getchildren\<close>, with its variables \<open>ret\<close> and \<open>count\<close>. The vector
  is written by the call only when the call succeeds.
\<close>

function retry_getchildren_loop ::
  "zk_env \<Rightarrow> string \<Rightarrow> timespec \<Rightarrow> nat \<Rightarrow> zoo_rc \<Rightarrow> nat \<Rightarrow> string list \<Rightarrow> world
   \<Rightarrow> zoo_rc \<times> string list \<times> world" where
  "retry_getchildren_loop env path t retry ret count vector w =
     (if ret = ZCONNECTIONLOSS \<and> count < retry then
        (case zoo_get_children env path w of
           ((ret', children), w1) \<Rightarrow>
             if ret' = ZCONNECTIONLOSS
             then retry_getchildren_loop env path t retry ret' (Suc count) vector (nanosleep t w1)
             else retry_getchildren_loop env path t retry ret' count
                    (if ret' = ZOK then children else vector) w1)
      else (ret, vector, w))"
  by pat_completeness auto
termination
  by (relation "measure (\<lambda>(env, path, t, retry, ret, count, vector, w).
        if ret = ZCONNECTIONLOSS then Suc (retry - count) else 0)") auto

definition retry_getchildren ::
  "zk_env \<Rightarrow> string \<Rightarrow> string list \<Rightarrow> timespec \<Rightarrow> nat \<Rightarrow> world
   \<Rightarrow> zoo_rc \<times> string list \<times> world" where
  "retry_getchildren env path vector t retry w =
     retry_getchildren_loop env path t retry ZCONNECTIONLOSS 0 vector w"

section \<open>main (main.c, lines 198 to 318)\<close>

definition maxretry :: nat where
  "maxretry = 5"

text \<open>
  \<open>ts.tv_nsec = (.5)*1000000\<close>: a product of two doubles, both exact, converted to
  \<open>long\<close>; the conversion drops the fractional part.
\<close>

definition double_to_long :: "real \<Rightarrow> int" where
  "double_to_long x = (if 0 \<le> x then \<lfloor>x\<rfloor> else \<lceil>x\<rceil>)"

definition ts :: timespec where
  "ts = \<lparr>tv_sec = 0, tv_nsec = double_to_long ((5 / 10) * 1000000)\<rparr>"

text \<open>
  The loop that checks the folder and creates it (lines 223 to 231), with its variables
  \<open>exists\<close> and \<open>count\<close>.
\<close>

function create_path_loop ::
  "zk_env \<Rightarrow> string \<Rightarrow> zoo_rc \<Rightarrow> nat \<Rightarrow> world \<Rightarrow> zoo_rc \<times> nat \<times> world" where
  "create_path_loop env path exists count w =
     (if (exists = ZCONNECTIONLOSS \<or> exists = ZNONODE) \<and> count < maxretry then
        (if exists = ZCONNECTIONLOSS then
           (case zoo_exists env path (nanosleep ts w) of
              (exists', w1) \<Rightarrow> create_path_loop env path exists' (Suc count) w1)
         else
           (case zoo_create env path Flags_0 (nanosleep ts w) of
              ((exists', buf), w1) \<Rightarrow> create_path_loop env path exists' (Suc count) w1))
      else (exists, count, w))"
  by pat_completeness auto
termination
  by (relation "measure (\<lambda>(env, path, exists, count, w). maxretry - count)") auto

text \<open>
  The prefix \<open>x-%016lx-\<close> of the session id: the id printed as an unsigned 64-bit value
  in lower-case hexadecimal, padded with zeros to 16 digits (which 64 bits never exceed).
\<close>

definition hex_digit :: "nat \<Rightarrow> char" where
  "hex_digit n = ''0123456789abcdef'' ! n"

fun hex_fixed :: "nat \<Rightarrow> nat \<Rightarrow> string" where
  "hex_fixed 0 v = []"
| "hex_fixed (Suc n) v = hex_fixed n (v div 16) @ [hex_digit (v mod 16)]"

definition session_prefix :: "64 word \<Rightarrow> string" where
  "session_prefix session = ''x-'' @ hex_fixed 16 (unat session) @ ''-''"

text \<open>
  How one pass through the body of the lock loop ends: at the end of the body or at a
  \<open>continue\<close>, at the \<open>break\<close>, at the \<open>goto exitnow\<close> after printing the path given,
  or in undefined behaviour.
\<close>

datatype ctl = Continue | Break | Goto_exitnow string | Undefined

text \<open>
  Lines 261 to 277: look for a node of this session among the children and create one
  if there is none. The result is the value of \<open>ret\<close> and of \<open>id\<close> afterwards.
\<close>

definition resolve_candidate ::
  "zk_env \<Rightarrow> string \<Rightarrow> string \<Rightarrow> string list \<Rightarrow> world \<Rightarrow> zoo_rc \<times> string option \<times> world" where
  "resolve_candidate env path prefix vector w =
     (case lookupnode vector prefix of
        Some child \<Rightarrow> (ZOK, Some child, w)
      | None \<Rightarrow>
          (case zoo_create env (path @ ''/'' @ prefix) ZOO_EPHEMERAL_SEQUENCE w of
             ((ret, retbuf), w1) \<Rightarrow>
               if ret \<noteq> ZOK
               then (ret, None,
                     emit (Print_stderr (''Could not create locking node '' @ path @ ''/''
                                          @ prefix @ newline)) w1)
               else (ret, getName retbuf, w1)))"

text \<open>
  Lines 279 to 301, entered with \<open>id\<close> not NULL: list the children again, sort them, take
  the first as \<open>ownerid\<close> and decide by \<open>child_floor\<close>. The vector was freed before, so
  the first entry is read from whatever the second listing wrote; an empty listing makes
  that read undefined.
\<close>

definition lock_decide ::
  "zk_env \<Rightarrow> string \<Rightarrow> string \<Rightarrow> string option \<Rightarrow> world
   \<Rightarrow> ctl \<times> string option \<times> string option \<times> world" where
  "lock_decide env path i ownerid w =
     (case retry_getchildren env path [] ts maxretry w of
        (ret, vector, w1) \<Rightarrow>
          if ret \<noteq> ZOK
          then (Continue, Some i, ownerid,
                emit (Print_stderr (''Could not enumerate folder '' @ path @ newline)) w1)
          else
            (case sort_children vector of
               None \<Rightarrow> (Undefined, Some i, ownerid, w1)
             | Some [] \<Rightarrow> (Undefined, Some i, ownerid, w1)
             | Some (first # rest) \<Rightarrow>
                 (case child_floor (first # rest) i of
                    Some lessthanme \<Rightarrow>
                      (Goto_exitnow (path @ ''/'' @ lessthanme), Some i, Some first,
                       emit (Print_stdout (''LOCKED: '' @ path @ ''/'' @ lessthanme @ newline)) w1)
                  | None \<Rightarrow> (Break, Some i, Some first, w1))))"

text \<open>One pass through the body of the lock loop (lines 240 to 301).\<close>

definition lock_attempt ::
  "zk_env \<Rightarrow> string \<Rightarrow> string option \<Rightarrow> string option \<Rightarrow> world
   \<Rightarrow> ctl \<times> string option \<times> string option \<times> world" where
  "lock_attempt env path id0 ownerid w =
     (case retry_getchildren env path [] ts maxretry (nanosleep ts w) of
        (ret, vector, w1) \<Rightarrow>
          if ret \<noteq> ZOK
          then (Continue, id0, ownerid,
                emit (Print_stderr (''Could not enumerate folder '' @ path @ newline)) w1)
          else
            (case resolve_candidate env path (session_prefix (client_id env)) vector w1 of
               (ret', id1, w2) \<Rightarrow>
                 if ret' \<noteq> ZOK then (Continue, id1, ownerid, w2)
                 else (case id1 of
                         None \<Rightarrow> (Continue, None, ownerid, w2)
                       | Some i \<Rightarrow> lock_decide env path i ownerid w2)))"

text \<open>
  The lock loop (lines 239 to 302). The result says how the loop was left (\<open>Continue\<close>
  when its condition became false) and gives \<open>count\<close>, \<open>id\<close> and \<open>ownerid\<close> then.
\<close>

function lock_loop ::
  "zk_env \<Rightarrow> string \<Rightarrow> nat \<Rightarrow> string option \<Rightarrow> string option \<Rightarrow> world
   \<Rightarrow> ctl \<times> nat \<times> string option \<times> string option \<times> world" where
  "lock_loop env path count id0 ownerid w =
     (if count < maxretry then
        (case lock_attempt env path id0 ownerid w of
           (c, id1, ownerid1, w1) \<Rightarrow>
             if c = Continue then lock_loop env path (Suc count) id1 ownerid1 w1
             else (c, Suc count, id1, ownerid1, w1))
      else (Continue, count, id0, ownerid, w))"
  by pat_completeness auto
termination
  by (relation "measure (\<lambda>(env, path, count, id0, ownerid, w). maxretry - count)") auto

text \<open>
  The ways a run ends. \<open>Not_owner\<close> is the silent exit of line 310, \<open>Lock_held\<close> the
  path through \<open>sleep(10)\<close>.
\<close>

datatype outcome =
    Init_failed
  | Could_not_create
  | Blocked string
  | Too_many_retries
  | Not_owner
  | Lock_held
  | Undefined_behaviour

record result =
  outcome :: outcome
  exit_status :: "int option"
  id_at_exit :: "string option"
  ownerid_at_exit :: "string option"
  final :: world

text \<open>The label \<open>exitnow\<close>: close the handle and return 0.\<close>

definition exitnow :: "outcome \<Rightarrow> string option \<Rightarrow> string option \<Rightarrow> world \<Rightarrow> result" where
  "exitnow out i own w =
     \<lparr>outcome = out, exit_status = Some 0, id_at_exit = i, ownerid_at_exit = own,
      final = emit Zookeeper_close w\<rparr>"

text \<open>Lines 303 to 313, after the lock loop has been left by its condition or by \<open>break\<close>.\<close>

definition after_lock_loop ::
  "string \<Rightarrow> nat \<Rightarrow> string option \<Rightarrow> string option \<Rightarrow> world \<Rightarrow> result" where
  "after_lock_loop path count i own w =
     (if count \<ge> maxretry
      then exitnow Too_many_retries i own
             (emit (Print_stderr (''Too many retries while trying to lock '' @ path @ newline)) w)
      else (case i of
              None \<Rightarrow> exitnow Not_owner i own w
            | Some idv \<Rightarrow>
                (case own of
                   None \<Rightarrow> exitnow Not_owner i own w
                 | Some ownv \<Rightarrow>
                     if strcmp idv ownv \<noteq> 0 then exitnow Not_owner i own w
                     else exitnow Lock_held i own (emit (Sleep 10) w))))"

text \<open>
  \<open>main\<close>, called with both arguments present: \<open>hosts\<close> is \<open>argv[1]\<close> and \<open>path\<close> is
  \<open>argv[2]\<close>.
\<close>

definition main :: "zk_env \<Rightarrow> string \<Rightarrow> string \<Rightarrow> result" where
  "main env hosts path =
     (case init_errno env of
        Some e \<Rightarrow>
          \<lparr>outcome = Init_failed, exit_status = Some e, id_at_exit = None,
           ownerid_at_exit = None, final = emit (Zookeeper_init hosts) world0\<rparr>
      | None \<Rightarrow>
          (case zoo_exists env path (emit (Zookeeper_init hosts) world0) of
             (exists, w1) \<Rightarrow>
               (case create_path_loop env path exists 0 w1 of
                  (exists', count, w2) \<Rightarrow>
                    if count \<ge> maxretry
                    then exitnow Could_not_create None None
                           (emit (Print_stderr (''Could not create '' @ path @ newline)) w2)
                    else
                      (case lock_loop env path 0 None None w2 of
                         (c, count', i, own, w3) \<Rightarrow>
                           (case c of
                              Goto_exitnow last_child \<Rightarrow> exitnow (Blocked last_child) i own w3
                            | Undefined \<Rightarrow>
                                \<lparr>outcome = Undefined_behaviour, exit_status = None,
                                 id_at_exit = i, ownerid_at_exit = own, final = w3\<rparr>
                            | Continue \<Rightarrow> after_lock_loop path count' i own w3
                            | Break \<Rightarrow> after_lock_loop path count' i own w3)))))"

declare retry_getchildren_loop.simps [simp del]
declare create_path_loop.simps [simp del]
declare lock_loop.simps [simp del]

section \<open>Services used in the worked runs\<close>

text \<open>Node names of two sessions, \<open>a\<close> and \<open>b\<close>; \<open>b\<close> registered first.\<close>

abbreviation node_a2 :: string where
  "node_a2 \<equiv> ''x-000000000000000a-0000000002''"

abbreviation node_b1 :: string where
  "node_b1 \<equiv> ''x-000000000000000b-0000000001''"

text \<open>
  The folder exists and holds the nodes of both sessions at every listing; the run is
  made by session \<open>s\<close>.
\<close>

definition env_two_sessions :: "64 word \<Rightarrow> zk_env" where
  "env_two_sessions s =
     \<lparr>init_errno = None, client_id = s, exists_replies = (\<lambda>n. ZOK),
      create_replies = (\<lambda>n. (ZOTHER 0, [])),
      children_replies = (\<lambda>n. (ZOK, [node_a2, node_b1]))\<rparr>"

text \<open>Three sessions \<open>c\<close>, \<open>a\<close>, \<open>b\<close> that registered in this order.\<close>

abbreviation node_c1 :: string where
  "node_c1 \<equiv> ''x-000000000000000c-0000000001''"

abbreviation node_b5 :: string where
  "node_b5 \<equiv> ''x-000000000000000b-0000000005''"

text \<open>Three nodes of one session prefix, as in the example of the specification.\<close>

abbreviation node_s1 :: string where
  "node_s1 \<equiv> ''x-0000000000000001-0000000001''"

abbreviation node_s2 :: string where
  "node_s2 \<equiv> ''x-0000000000000001-0000000002''"

abbreviation node_s5 :: string where
  "node_s5 \<equiv> ''x-0000000000000001-0000000005''"

text \<open>
  The first four passes of the lock loop lose the connection at each of their five
  listings; from the fifth pass on the folder holds the node of session 1 alone.
\<close>

definition env_last_attempt :: zk_env where
  "env_last_attempt =
     \<lparr>init_errno = None, client_id = 1, exists_replies = (\<lambda>n. ZOK),
      create_replies = (\<lambda>n. (ZOTHER 0, [])),
      children_replies = (\<lambda>n. if n < 20 then (ZCONNECTIONLOSS, [])
                               else (ZOK, [''x-0000000000000001-0000000000'']))\<rparr>"

text \<open>
  The existence check loses the connection at the first call and at four retries; the
  fifth retry finds the folder.
\<close>

definition env_fifth_retry :: zk_env where
  "env_fifth_retry =
     \<lparr>init_errno = None, client_id = 1,
      exists_replies = (\<lambda>n. if n < 5 then ZCONNECTIONLOSS else ZOK),
      create_replies = (\<lambda>n. (ZOTHER 0, [])),
      children_replies = (\<lambda>n. (ZOK, [''x-0000000000000001-0000000000'']))\<rparr>"

text \<open>
  Session \<open>c\<close> holds the third of three nodes: two other sessions registered before it.
\<close>

abbreviation node_a1 :: string where
  "node_a1 \<equiv> ''x-000000000000000a-0000000001''"

abbreviation node_b2 :: string where
  "node_b2 \<equiv> ''x-000000000000000b-0000000002''"

abbreviation node_c5 :: string where
  "node_c5 \<equiv> ''x-000000000000000c-0000000005''"

definition env_third_in_line :: zk_env where
  "env_third_in_line =
     \<lparr>init_errno = None, client_id = 12, exists_replies = (\<lambda>n. ZOK),
      create_replies = (\<lambda>n. (ZOTHER 0, [])),
      children_replies = (\<lambda>n. (ZOK, [node_c5, node_a1, node_b2]))\<rparr>"

text \<open>
  An empty store: the folder is absent and gets created, the folder is empty at the first
  listing, the node of session \<open>a\<close> is created and is alone at the second listing.
\<close>

definition env_empty_store :: zk_env where
  "env_empty_store =
     \<lparr>init_errno = None, client_id = 10, exists_replies = (\<lambda>n. ZNONODE),
      create_replies = (\<lambda>n. if n = 0 then (ZOK, [])
                              else (ZOK, ''/lock/x-000000000000000a-0000000000'')),
      children_replies = (\<lambda>n. if n = 0 then (ZOK, [])
                                else (ZOK, [''x-000000000000000a-0000000000'']))\<rparr>"

text \<open>
  The folder exists and is empty at the first listing; the create of the node of session
  \<open>a\<close> loses the connection, but the node is there at every later listing.
\<close>

definition env_create_fails :: zk_env where
  "env_create_fails =
     \<lparr>init_errno = None, client_id = 10, exists_replies = (\<lambda>n. ZOK),
      create_replies = (\<lambda>n. (ZCONNECTIONLOSS, [])),
      children_replies = (\<lambda>n. if n = 0 then (ZOK, [])
                                else (ZOK, [''x-000000000000000a-0000000000'']))\<rparr>"

text \<open>
  Two listings lose the connection, the third is refused with another error, and all
  later ones lose the connection again.
\<close>

definition env_listing :: zk_env where
  "env_listing =
     \<lparr>init_errno = None, client_id = 10, exists_replies = (\<lambda>n. ZOK),
      create_replies = (\<lambda>n. (ZOTHER 0, [])),
      children_replies = (\<lambda>n. if n = 2 then (ZOTHER (- 7), []) else (ZCONNECTIONLOSS, []))\<rparr>"

text \<open>\<open>zookeeper_init\<close> returns NULL and leaves 22 in \<open>errno\<close>.\<close>

definition env_no_handle :: zk_env where
  "env_no_handle = (env_two_sessions 10)\<lparr>init_errno := Some 22\<rparr>"

text \<open>The program's sleeps between attempts all take \<open>ts\<close>.\<close>

definition sleeps_ts :: "world \<Rightarrow> bool" where
  "sleeps_ts w \<longleftrightarrow> (\<forall>t. Nanosleep t \<in> set (trace w) \<longrightarrow> t = ts)"


section \<open>Evaluating runs\<close>

lemma hex_fixed_numeral:
  "hex_fixed (numeral k) v = hex_fixed (pred_numeral k) (v div 16) @ [hex_digit (v mod 16)]"
proof -
  have "hex_fixed (Suc (pred_numeral k)) v =
          hex_fixed (pred_numeral k) (v div 16) @ [hex_digit (v mod 16)]"
    by (rule hex_fixed.simps)
  then show ?thesis
    by (simp only: numeral_eq_Suc [of k, symmetric])
qed

lemmas run_defs =
  hex_fixed_numeral main_def zoo_exists_def zoo_create_def zoo_get_children_def emit_def
  world0_def maxretry_def nanosleep_def retry_getchildren_def retry_getchildren_loop.simps
  create_path_loop.simps lock_loop.simps lock_attempt_def resolve_candidate_def
  session_prefix_def hex_digit_def byte_def lock_decide_def vstrcmp_def child_floor_def
  after_lock_loop_def exitnow_def getName_def

lemma session_prefix_10: "session_prefix 10 = ''x-000000000000000a-''"
  by (simp add: session_prefix_def hex_fixed_numeral hex_digit_def)

lemma run_third_in_line:
  "main env_third_in_line ''zk:2181'' ''/lock'' =
     \<lparr>outcome = Blocked (''/lock/'' @ node_b2), exit_status = Some 0,
      id_at_exit = Some node_c5, ownerid_at_exit = Some node_a1,
      final = \<lparr>n_exists = 1, n_create = 0, n_children = 2,
               trace = [Zookeeper_init ''zk:2181'', Zoo_exists ''/lock'', Nanosleep ts,
                        Zoo_get_children ''/lock'', Zoo_get_children ''/lock'',
                        Print_stdout (''LOCKED: /lock/'' @ node_b2 @ newline),
                        Zookeeper_close]\<rparr>\<rparr>"
  by (simp add: env_third_in_line_def run_defs)

lemma run_empty_store:
  "outcome (main env_empty_store ''zk:2181'' ''/lock'') = Lock_held"
  by (simp add: env_empty_store_def run_defs)

lemma run_fifth_retry:
  "outcome (main env_fifth_retry ''zk:2181'' ''/lock'') = Could_not_create"
  by (simp add: env_fifth_retry_def run_defs)

lemma run_last_attempt:
  "outcome (main env_last_attempt ''zk:2181'' ''/lock'') = Too_many_retries"
  by (simp add: env_last_attempt_def run_defs)

lemma example_handles:
  "init_errno env_empty_store = None"
  "init_errno env_third_in_line = None"
  "init_errno env_fifth_retry = None"
  "init_errno env_last_attempt = None"
  "init_errno env_no_handle = Some 22"
  by (simp_all add: env_empty_store_def env_third_in_line_def env_fifth_retry_def
                    env_last_attempt_def env_no_handle_def)

lemma run_no_handle:
  "outcome (main env_no_handle ''zk:2181'' ''/lock'') = Init_failed"
  by (simp add: env_no_handle_def env_two_sessions_def main_def)

section \<open>The order used by the sort and the order used by the floor\<close>

text \<open>
  Claim C1: in a set of candidate names with distinct zero-padded sequence suffixes,
  exactly one name has no floor, and it is the minimum in sequence order; so when the
  decision sees no floor, the own name is the holder.

  The code sorts by the suffix (\<open>vstrcmp\<close>) but \<open>child_floor\<close> compares whole names,
  session id included. With session \<open>b\<close> registered before session \<open>a\<close> the sorted
  vector is \<open>[node_b1, node_a2]\<close>; \<open>node_a2\<close>, which is not the minimum, has no floor,
  and the minimum \<open>node_b1\<close> has the floor \<open>node_a2\<close>. The run of session \<open>a\<close> leaves
  the loop by \<open>break\<close> with an \<open>id\<close> that differs from \<open>ownerid\<close> and ends at the check
  of line 309; the run of session \<open>b\<close> reports to be locked out by \<open>node_a2\<close>.
\<close>

theorem child_floor_none_not_minimum:
  "sort_children [node_a2, node_b1] = Some [node_b1, node_a2]
   \<and> child_floor [node_b1, node_a2] node_a2 = None
   \<and> child_floor [node_b1, node_a2] node_b1 = Some node_a2
   \<and> outcome (main (env_two_sessions 10) ''zk:2181'' ''/lock'') = Not_owner
   \<and> outcome (main (env_two_sessions 11) ''zk:2181'' ''/lock'') = Blocked (''/lock/'' @ node_a2)"
  by (simp add: env_two_sessions_def run_defs)

text \<open>
  Claim C2: on a sequence sorted by suffix, \<open>floor\<close> of a member is the greatest element
  below it in sequence order, and is none exactly for the minimum; the example with
  suffixes 1, 2, 5.

  The example of the claim, where all names have one session prefix, evaluates as the
  claim says. With three sessions the vector sorted by suffix is
  \<open>[node_c1, node_a2, node_b5]\<close>: the floor of its minimum \<open>node_c1\<close> is \<open>node_b5\<close>, the
  element with the greatest suffix, and \<open>node_a2\<close> has no floor though \<open>node_c1\<close> precedes
  it. The cause is the one of C1: \<open>child_floor\<close> compares whole names.
\<close>

theorem child_floor_not_sequence_floor:
  "sort_children [node_b5, node_c1, node_a2] = Some [node_c1, node_a2, node_b5]
   \<and> child_floor [node_c1, node_a2, node_b5] node_c1 = Some node_b5
   \<and> child_floor [node_c1, node_a2, node_b5] node_a2 = None
   \<and> child_floor [node_s1, node_s2, node_s5] node_s2 = Some node_s1
   \<and> child_floor [node_s1, node_s2, node_s5] node_s1 = None"
  by (simp add: run_defs)

section \<open>The two counters and the check after each loop\<close>

text \<open>
  Claim C3: a run in which some pass of the lock loop decides that the lock is acquired,
  the last pass allowed included, ends with the lock held; exhaustion is reported only
  when no pass reached a decision.

  The loop counts a pass before running it, and line 303 tests \<open>count >= maxretry\<close> after
  the loop whether it was left by \<open>break\<close> or by its condition. In the run below the
  fifth pass finds the own node alone in the folder and leaves by \<open>break\<close> with \<open>id\<close>
  equal to \<open>ownerid\<close>; the run reports too many retries and never reaches \<open>sleep(10)\<close>.
\<close>

theorem locked_on_last_attempt_reported_exhausted:
  "fst (lock_loop env_last_attempt ''/lock'' 0 None None world0) = Break
   \<and> fst (snd (lock_loop env_last_attempt ''/lock'' 0 None None world0)) = 5
   \<and> outcome (main env_last_attempt ''zk:2181'' ''/lock'') = Too_many_retries
   \<and> Sleep 10 \<notin> set (trace (final (main env_last_attempt ''zk:2181'' ''/lock'')))
   \<and> id_at_exit (main env_last_attempt ''zk:2181'' ''/lock'')
       = Some ''x-0000000000000001-0000000000''
   \<and> ownerid_at_exit (main env_last_attempt ''zk:2181'' ''/lock'')
       = Some ''x-0000000000000001-0000000000''"
  by (simp add: env_last_attempt_def run_defs)

text \<open>
  Claim C5: making sure that the folder exists fails exactly when five retries are used
  up while the check still reports absence or a lost connection; a check or a create that
  succeeds within the five retries makes the run go on.

  Line 232 tests \<open>count >= maxretry\<close> and not the last result. In the run below the
  fifth retry of \<open>zoo_exists\<close> returns \<open>ZOK\<close>; the loop ends with \<open>exists = ZOK\<close> and
  \<open>count = 5\<close>, and the run stops with the message that the folder could not be created.
\<close>

theorem folder_found_on_fifth_retry_reported_failed:
  "exists_replies env_fifth_retry 5 = ZOK
   \<and> fst (create_path_loop env_fifth_retry ''/lock'' ZCONNECTIONLOSS 0
             (snd (zoo_exists env_fifth_retry ''/lock'' world0))) = ZOK
   \<and> fst (snd (create_path_loop env_fifth_retry ''/lock'' ZCONNECTIONLOSS 0
                  (snd (zoo_exists env_fifth_retry ''/lock'' world0)))) = 5
   \<and> outcome (main env_fifth_retry ''zk:2181'' ''/lock'') = Could_not_create
   \<and> Print_stderr (''Could not create /lock'' @ newline)
        \<in> set (trace (final (main env_fifth_retry ''zk:2181'' ''/lock'')))"
  by (simp add: env_fifth_retry_def run_defs)

section \<open>Reuse of an existing candidate node\<close>

lemma byte_eq_iff: "byte x = byte y \<longleftrightarrow> x = y"
  by (simp add: byte_def)

lemma strncmp_prefix:
  "\<forall>x\<in>set p. byte x \<noteq> 0 \<Longrightarrow> strncmp p c (length p) = 0 \<longleftrightarrow> take (length p) c = p"
proof (induction p arbitrary: c)
  case Nil
  show ?case by simp
next
  case (Cons x xs)
  show ?case
  proof (cases c)
    case Nil
    with Cons.prems show ?thesis by simp
  next
    case (Cons y ys)
    with Cons.IH [of ys] Cons.prems show ?thesis by (simp add: byte_eq_iff)
  qed
qed

lemma hex_digit_byte: "n < 16 \<Longrightarrow> byte (hex_digit n) \<noteq> 0"
proof -
  assume "n < 16"
  then have "hex_digit n \<in> set ''0123456789abcdef''"
    unfolding hex_digit_def by (intro nth_mem) simp
  then show ?thesis by (auto simp: byte_def)
qed

lemma hex_fixed_bytes: "\<forall>x\<in>set (hex_fixed n v). byte x \<noteq> 0"
  by (induction n arbitrary: v) (simp_all add: hex_digit_byte)

lemma session_prefix_bytes: "\<forall>x\<in>set (session_prefix s). byte x \<noteq> 0"
  using hex_fixed_bytes [of 16 "unat s"] by (simp add: session_prefix_def byte_def)

lemma lookupnode_find:
  "\<forall>x\<in>set p. byte x \<noteq> 0 \<Longrightarrow>
   lookupnode vector p = List.find (\<lambda>child. take (length p) child = p) vector"
  by (induction vector) (simp_all add: strncmp_prefix)

text \<open>
  Claim C6: when the children already hold a name that begins with the prefix of the
  session, the candidate step returns that name and issues no create; run twice on such
  children it returns the existing node both times.

  The name returned is the first child that begins with the prefix, and the world is
  returned as it was: no call and no output, so in particular no create.
\<close>

theorem existing_candidate_reused:
  assumes "c \<in> set vector"
      and "take (length (session_prefix s)) c = session_prefix s"
  shows "\<exists>c'. List.find (\<lambda>child. take (length (session_prefix s)) child = session_prefix s)
                  vector = Some c'
           \<and> c' \<in> set vector
           \<and> take (length (session_prefix s)) c' = session_prefix s
           \<and> resolve_candidate env path (session_prefix s) vector w = (ZOK, Some c', w)
           \<and> resolve_candidate env path (session_prefix s) vector
                (snd (snd (resolve_candidate env path (session_prefix s) vector w)))
               = (ZOK, Some c', w)"
proof -
  let ?P = "\<lambda>child. take (length (session_prefix s)) child = session_prefix s"
  from assms have "List.find ?P vector \<noteq> None"
    by (auto simp: find_None_iff)
  then obtain c' where found: "List.find ?P vector = Some c'" by auto
  then have mem: "c' \<in> set vector \<and> ?P c'"
    by (auto simp: find_Some_iff)
  have look: "lookupnode vector (session_prefix s) = Some c'"
    using found by (simp add: lookupnode_find [OF session_prefix_bytes])
  then have "resolve_candidate env path (session_prefix s) vector w = (ZOK, Some c', w)" for w
    by (simp add: resolve_candidate_def)
  with found mem show ?thesis by simp
qed

theorem existing_candidate_reused_witness:
  "node_a2 \<in> set [node_b1, node_a2]
   \<and> take (length (session_prefix 10)) node_a2 = session_prefix 10
   \<and> resolve_candidate (env_two_sessions 10) ''/lock'' (session_prefix 10)
        [node_b1, node_a2] world0 = (ZOK, Some node_a2, world0)"
  using existing_candidate_reused
          [of node_a2 "[node_b1, node_a2]" 10 "env_two_sessions 10" "''/lock''" world0]
  by (simp add: session_prefix_10)

section \<open>The retries of the listing\<close>

lemma retry_loop_stop:
  "ret \<noteq> ZCONNECTIONLOSS \<Longrightarrow>
   retry_getchildren_loop env path t retry ret count vector w = (ret, vector, w)"
  by (subst retry_getchildren_loop.simps) simp

lemma retry_loop_budget:
  "retry \<le> count \<Longrightarrow>
   retry_getchildren_loop env path t retry ret count vector w = (ret, vector, w)"
  by (subst retry_getchildren_loop.simps) simp

lemma retry_loop_answer:
  assumes "count < retry"
      and "fst (children_replies env (n_children w)) \<noteq> ZCONNECTIONLOSS"
  shows "retry_getchildren_loop env path t retry ZCONNECTIONLOSS count vector w =
           (fst (children_replies env (n_children w)),
            (if fst (children_replies env (n_children w)) = ZOK
             then snd (children_replies env (n_children w)) else vector),
            w\<lparr>n_children := Suc (n_children w), trace := trace w @ [Zoo_get_children path]\<rparr>)"
proof -
  obtain r v where rv: "children_replies env (n_children w) = (r, v)"
    by (cases "children_replies env (n_children w)")
  with assms(2) have "r \<noteq> ZCONNECTIONLOSS" by simp
  with assms(1) rv show ?thesis
    by (subst retry_getchildren_loop.simps)
       (simp add: zoo_get_children_def emit_def retry_loop_stop)
qed

lemma retry_loop_loss:
  assumes "count < retry"
      and "fst (children_replies env (n_children w)) = ZCONNECTIONLOSS"
  shows "retry_getchildren_loop env path t retry ZCONNECTIONLOSS count vector w =
           retry_getchildren_loop env path t retry ZCONNECTIONLOSS (Suc count) vector
             (w\<lparr>n_children := Suc (n_children w),
                 trace := trace w @ [Zoo_get_children path, Nanosleep t]\<rparr>)"
proof -
  obtain r v where rv: "children_replies env (n_children w) = (r, v)"
    by (cases "children_replies env (n_children w)")
  with assms(2) have "r = ZCONNECTIONLOSS" by simp
  with assms(1) rv show ?thesis
    by (subst retry_getchildren_loop.simps)
       (simp add: zoo_get_children_def emit_def nanosleep_def)
qed

lemma retry_loop_after_losses:
  "count + k < retry \<Longrightarrow>
   (\<forall>j<k. fst (children_replies env (n_children w + j)) = ZCONNECTIONLOSS) \<Longrightarrow>
   fst (children_replies env (n_children w + k)) \<noteq> ZCONNECTIONLOSS \<Longrightarrow>
   retry_getchildren_loop env path t retry ZCONNECTIONLOSS count vector w =
     (fst (children_replies env (n_children w + k)),
      (if fst (children_replies env (n_children w + k)) = ZOK
       then snd (children_replies env (n_children w + k)) else vector),
      w\<lparr>n_children := n_children w + k + 1,
        trace := trace w @ concat (replicate k [Zoo_get_children path, Nanosleep t])
                 @ [Zoo_get_children path]\<rparr>)"
proof (induction k arbitrary: count w)
  case 0
  then show ?case by (simp add: retry_loop_answer)
next
  case (Suc k)
  let ?w = "w\<lparr>n_children := Suc (n_children w),
               trace := trace w @ [Zoo_get_children path, Nanosleep t]\<rparr>"
  have first: "fst (children_replies env (n_children w)) = ZCONNECTIONLOSS"
    using Suc.prems(2) [rule_format, of 0] by simp
  have rest: "\<forall>j<k. fst (children_replies env (n_children ?w + j)) = ZCONNECTIONLOSS"
  proof (intro allI impI)
    fix j assume "j < k"
    then have "Suc j < Suc k" by simp
    from Suc.prems(2) [rule_format, OF this]
    show "fst (children_replies env (n_children ?w + j)) = ZCONNECTIONLOSS" by simp
  qed
  have last: "fst (children_replies env (n_children ?w + k)) \<noteq> ZCONNECTIONLOSS"
    using Suc.prems(3) by simp
  have budget: "Suc count + k < retry" and now: "count < retry"
    using Suc.prems(1) by simp_all
  show ?case
    by (simp add: retry_loop_loss [OF now first] Suc.IH [OF budget rest last])
qed

lemma retry_loop_all_losses:
  "count + k = retry \<Longrightarrow>
   (\<forall>j<k. fst (children_replies env (n_children w + j)) = ZCONNECTIONLOSS) \<Longrightarrow>
   retry_getchildren_loop env path t retry ZCONNECTIONLOSS count vector w =
     (ZCONNECTIONLOSS, vector,
      w\<lparr>n_children := n_children w + k,
        trace := trace w @ concat (replicate k [Zoo_get_children path, Nanosleep t])\<rparr>)"
proof (induction k arbitrary: count w)
  case 0
  then show ?case by (simp add: retry_loop_budget)
next
  case (Suc k)
  let ?w = "w\<lparr>n_children := Suc (n_children w),
               trace := trace w @ [Zoo_get_children path, Nanosleep t]\<rparr>"
  have first: "fst (children_replies env (n_children w)) = ZCONNECTIONLOSS"
    using Suc.prems(2) [rule_format, of 0] by simp
  have rest: "\<forall>j<k. fst (children_replies env (n_children ?w + j)) = ZCONNECTIONLOSS"
  proof (intro allI impI)
    fix j assume "j < k"
    then have "Suc j < Suc k" by simp
    from Suc.prems(2) [rule_format, OF this]
    show "fst (children_replies env (n_children ?w + j)) = ZCONNECTIONLOSS" by simp
  qed
  have budget: "Suc count + k = retry" and now: "count < retry"
    using Suc.prems(1) by simp_all
  show ?case
    by (simp add: retry_loop_loss [OF now first] Suc.IH [OF budget rest])
qed

text \<open>
  Claim C8: the listing is repeated only after a lost connection, up to the budget of
  attempts, with the delay before each repetition; any other result is returned at once.

  First part: after \<open>k\<close> lost connections, \<open>k\<close> below the budget, an answer that is not a
  lost connection is returned as it is; the calls made are \<open>k + 1\<close> listings with a sleep
  after each of the first \<open>k\<close>, and nothing follows the answer. With \<open>k = 0\<close> this is the
  immediate return. Second part: when every attempt of the budget loses the connection,
  there are exactly \<open>retry\<close> listings, each followed by the sleep, and the result is the
  lost connection.
\<close>

theorem retry_getchildren_retries_connection_loss_only:
  "(k < retry \<and> (\<forall>j<k. fst (children_replies env (n_children w + j)) = ZCONNECTIONLOSS)
      \<and> fst (children_replies env (n_children w + k)) \<noteq> ZCONNECTIONLOSS
    \<longrightarrow> retry_getchildren env path vector t retry w =
          (fst (children_replies env (n_children w + k)),
           (if fst (children_replies env (n_children w + k)) = ZOK
            then snd (children_replies env (n_children w + k)) else vector),
           w\<lparr>n_children := n_children w + k + 1,
             trace := trace w @ concat (replicate k [Zoo_get_children path, Nanosleep t])
                      @ [Zoo_get_children path]\<rparr>))
   \<and> ((\<forall>j<retry. fst (children_replies env (n_children w + j)) = ZCONNECTIONLOSS)
      \<longrightarrow> retry_getchildren env path vector t retry w =
          (ZCONNECTIONLOSS, vector,
           w\<lparr>n_children := n_children w + retry,
             trace := trace w @ concat (replicate retry [Zoo_get_children path, Nanosleep t])\<rparr>))"
  unfolding retry_getchildren_def
  using retry_loop_after_losses [of 0 k retry env w path t vector]
        retry_loop_all_losses [of 0 retry retry env w path t vector]
  by simp

theorem retry_getchildren_retries_connection_loss_only_witness:
  "retry_getchildren env_listing ''/lock'' [] ts (Suc (Suc (Suc (Suc (Suc 0))))) world0 =
     (ZOTHER (- 7), [],
      world0\<lparr>n_children := 3,
        trace := [Zoo_get_children ''/lock'', Nanosleep ts, Zoo_get_children ''/lock'',
                  Nanosleep ts, Zoo_get_children ''/lock'']\<rparr>)
   \<and> retry_getchildren env_listing ''/lock'' [] ts (Suc (Suc 0)) (world0\<lparr>n_children := 3\<rparr>) =
     (ZCONNECTIONLOSS, [],
      world0\<lparr>n_children := 5,
        trace := [Zoo_get_children ''/lock'', Nanosleep ts, Zoo_get_children ''/lock'',
                  Nanosleep ts]\<rparr>)"
  using retry_getchildren_retries_connection_loss_only
          [of "Suc (Suc 0)" "Suc (Suc (Suc (Suc (Suc 0))))" env_listing world0 "''/lock''" "[]" ts]
        retry_getchildren_retries_connection_loss_only
          [of 0 "Suc (Suc 0)" env_listing "world0\<lparr>n_children := 3\<rparr>" "''/lock''" "[]" ts]
  by (simp add: env_listing_def world0_def less_Suc_eq)


text \<open>A property of worlds that each call and each sleep keeps is kept by the loop.\<close>

lemma retry_loop_preserves:
  "(\<And>w. P w \<Longrightarrow> P (emit (Zoo_get_children path) (w\<lparr>n_children := Suc (n_children w)\<rparr>))) \<Longrightarrow>
   (\<And>w. P w \<Longrightarrow> P (nanosleep t w)) \<Longrightarrow>
   P w \<Longrightarrow> P (snd (snd (retry_getchildren_loop env path t retry ret count v w)))"
proof (induction env path t retry ret count v w rule: retry_getchildren_loop.induct)
  case (1 env path t retry ret count v w)
  note step = "1.prems"(1) and sleep = "1.prems"(2)
  show ?case
  proof (cases "ret = ZCONNECTIONLOSS \<and> count < retry")
    case False
    then have "retry_getchildren_loop env path t retry ret count v w = (ret, v, w)"
      by (subst retry_getchildren_loop.simps) auto
    with "1.prems"(3) show ?thesis by simp
  next
    case True
    obtain r ch where reply: "children_replies env (n_children w) = (r, ch)"
      by (cases "children_replies env (n_children w)")
    let ?w = "emit (Zoo_get_children path) (w\<lparr>n_children := Suc (n_children w)\<rparr>)"
    have call: "zoo_get_children env path w = ((r, ch), ?w)"
      by (simp add: zoo_get_children_def reply)
    have Pw: "P ?w" using "1.prems"(3) by (rule step)
    show ?thesis
    proof (cases "r = ZCONNECTIONLOSS")
      case loss: True
      have "retry_getchildren_loop env path t retry ret count v w =
            retry_getchildren_loop env path t retry r (Suc count) v (nanosleep t ?w)"
        using True call loss by (subst retry_getchildren_loop.simps) simp
      with "1.IH"(1) [OF True call [symmetric] refl loss step sleep sleep [OF Pw]]
      show ?thesis by simp
    next
      case answer: False
      have "retry_getchildren_loop env path t retry ret count v w =
            (r, (if r = ZOK then ch else v), ?w)"
        using True call answer by (subst retry_getchildren_loop.simps) (simp add: retry_loop_stop)
      with Pw show ?thesis by simp
    qed
  qed
qed

lemma retry_getchildren_n_create:
  "n_create (snd (snd (retry_getchildren env path v t retry w))) = n_create w"
  unfolding retry_getchildren_def
  by (rule retry_loop_preserves [where P = "\<lambda>w'. n_create w' = n_create w"])
     (simp_all add: emit_def nanosleep_def)

section \<open>The create of the candidate node\<close>

lemma lock_decide_n_create:
  "lock_decide env path i own w = (c, i', own', w') \<Longrightarrow> n_create w' = n_create w"
proof -
  assume run: "lock_decide env path i own w = (c, i', own', w')"
  obtain ret vector w1
    where listing: "retry_getchildren env path [] ts maxretry w = (ret, vector, w1)"
    by (cases "retry_getchildren env path [] ts maxretry w")
  with retry_getchildren_n_create [of env path "[]" ts maxretry w]
  have "n_create w1 = n_create w" by simp
  with run listing show ?thesis
    by (auto simp: lock_decide_def emit_def split: if_splits option.splits list.splits)
qed

lemma resolve_candidate_n_create:
  "resolve_candidate env path prefix vector w = (r, i, w1) \<Longrightarrow> n_create w1 \<le> Suc (n_create w)"
  by (auto simp: resolve_candidate_def zoo_create_def emit_def
           split: option.splits prod.splits if_splits)

lemma lock_attempt_n_create:
  "lock_attempt env path id0 own w = (c, i', own', w') \<Longrightarrow> n_create w' \<le> Suc (n_create w)"
proof -
  assume run: "lock_attempt env path id0 own w = (c, i', own', w')"
  obtain ret vector w1
    where listing: "retry_getchildren env path [] ts maxretry (nanosleep ts w) = (ret, vector, w1)"
    by (cases "retry_getchildren env path [] ts maxretry (nanosleep ts w)")
  with retry_getchildren_n_create [of env path "[]" ts maxretry "nanosleep ts w"]
  have w1: "n_create w1 = n_create w" by (simp add: nanosleep_def emit_def)
  obtain ret' id1 w2
    where resolve: "resolve_candidate env path (session_prefix (client_id env)) vector w1
                    = (ret', id1, w2)"
    by (cases "resolve_candidate env path (session_prefix (client_id env)) vector w1")
  with w1 have w2: "n_create w2 \<le> Suc (n_create w)"
    by (auto dest: resolve_candidate_n_create)
  from run listing resolve w1 w2 show ?thesis
    by (auto simp: lock_attempt_def emit_def dest: lock_decide_n_create
             split: if_splits option.splits)
qed

text \<open>
  Claim C7: the create of the ephemeral sequential node is not retried within one pass of
  the lock loop. When it fails no second create is issued in that pass, and the run goes
  to the next pass, which builds the candidate again from a new listing.

  The pass is one that lists the folder, finds no node of the session and gets a result
  other than \<open>ZOK\<close> from the create. It ends at the \<open>continue\<close> with \<open>id\<close> NULL, having
  made one create and printed the message. Then the loop does what its next pass does:
  if a pass is left in the budget, \<open>lock_attempt\<close> runs again from that world with
  \<open>id\<close> NULL, and the loop ends as that pass ends or goes on after it; if none is
  left, the loop ends by its condition with the count at the budget. A next pass whose
  listing shows a node of the session takes it and goes to the decision without any
  create. In no pass at all are there two creates.
\<close>

theorem candidate_create_not_retried:
  assumes listing: "retry_getchildren env path [] ts maxretry (nanosleep ts w) = (ZOK, vector, w1)"
      and absent: "lookupnode vector (session_prefix (client_id env)) = None"
      and failed: "fst (create_replies env (n_create w1)) \<noteq> ZOK"
  shows "lock_attempt env path id0 own w =
           (Continue, None, own,
            w1\<lparr>n_create := Suc (n_create w1),
               trace := trace w1 @
                 [Zoo_create (path @ ''/'' @ session_prefix (client_id env)) ZOO_EPHEMERAL_SEQUENCE,
                  Print_stderr (''Could not create locking node '' @ path @ ''/''
                                @ session_prefix (client_id env) @ newline)]\<rparr>)
         \<and> n_create (snd (snd (snd (lock_attempt env path id0 own w)))) = Suc (n_create w)
         \<and> (count < maxretry \<longrightarrow>
              lock_loop env path count id0 own w =
              (if Suc count < maxretry
               then (case lock_attempt env path None own
                            (snd (snd (snd (lock_attempt env path id0 own w)))) of
                       (c, id1, own1, w3) \<Rightarrow>
                         if c = Continue then lock_loop env path (Suc (Suc count)) id1 own1 w3
                         else (c, Suc (Suc count), id1, own1, w3))
               else (Continue, Suc count, None, own,
                     snd (snd (snd (lock_attempt env path id0 own w))))))
         \<and> (\<forall>vector' w3 c.
              retry_getchildren env path [] ts maxretry
                (nanosleep ts (snd (snd (snd (lock_attempt env path id0 own w)))))
                = (ZOK, vector', w3)
              \<and> lookupnode vector' (session_prefix (client_id env)) = Some c
              \<longrightarrow> lock_attempt env path None own (snd (snd (snd (lock_attempt env path id0 own w))))
                  = lock_decide env path c own w3
                \<and> n_create w3 = Suc (n_create w))
         \<and> n_create (snd (snd (snd (lock_attempt env path id1 own1 wa)))) \<le> Suc (n_create wa)"
proof -
  let ?node = "path @ ''/'' @ session_prefix (client_id env)"
  let ?w2 = "w1\<lparr>n_create := Suc (n_create w1),
               trace := trace w1 @
                 [Zoo_create ?node ZOO_EPHEMERAL_SEQUENCE,
                  Print_stderr (''Could not create locking node '' @ ?node @ newline)]\<rparr>"
  obtain r buf where reply: "create_replies env (n_create w1) = (r, buf)"
    by (cases "create_replies env (n_create w1)")
  with failed have r: "r \<noteq> ZOK" by simp
  have resolve: "resolve_candidate env path (session_prefix (client_id env)) vector w1
                 = (r, None, ?w2)"
    using absent reply r by (simp add: resolve_candidate_def zoo_create_def emit_def)
  have pass: "lock_attempt env path id0 own w = (Continue, None, own, ?w2)"
    using listing resolve r by (simp add: lock_attempt_def)
  have w1: "n_create w1 = n_create w"
    using retry_getchildren_n_create [of env path "[]" ts maxretry "nanosleep ts w"] listing
    by (simp add: nanosleep_def emit_def)
  have once: "n_create ?w2 = Suc (n_create w)" using w1 by simp
  have this_pass: "count < maxretry \<longrightarrow>
      lock_loop env path count id0 own w = lock_loop env path (Suc count) None own ?w2"
    using pass by (subst lock_loop.simps) simp
  have next_pass: "lock_loop env path (Suc count) None own ?w2 =
      (if Suc count < maxretry
       then (case lock_attempt env path None own ?w2 of
               (c, id1, own1, w3) \<Rightarrow>
                 if c = Continue then lock_loop env path (Suc (Suc count)) id1 own1 w3
                 else (c, Suc (Suc count), id1, own1, w3))
       else (Continue, Suc count, None, own, ?w2))"
    by (rule lock_loop.simps)
  have loop: "count < maxretry \<longrightarrow>
      lock_loop env path count id0 own w =
      (if Suc count < maxretry
       then (case lock_attempt env path None own ?w2 of
               (c, id1, own1, w3) \<Rightarrow>
                 if c = Continue then lock_loop env path (Suc (Suc count)) id1 own1 w3
                 else (c, Suc (Suc count), id1, own1, w3))
       else (Continue, Suc count, None, own, ?w2))"
    using this_pass next_pass by simp
  have "lock_attempt env path None own ?w2 = lock_decide env path c own w3
        \<and> n_create w3 = Suc (n_create w)"
    if next_listing: "retry_getchildren env path [] ts maxretry (nanosleep ts ?w2) = (ZOK, vector', w3)"
      and found: "lookupnode vector' (session_prefix (client_id env)) = Some c"
    for vector' w3 c
  proof -
    have "n_create w3 = n_create ?w2"
      using retry_getchildren_n_create [of env path "[]" ts maxretry "nanosleep ts ?w2"]
            next_listing
      by (simp add: nanosleep_def emit_def)
    with once next_listing found show ?thesis
      by (simp add: lock_attempt_def resolve_candidate_def)
  qed
  moreover
  have "n_create (snd (snd (snd (lock_attempt env path id1 own1 wa)))) \<le> Suc (n_create wa)"
    by (cases "lock_attempt env path id1 own1 wa") (auto dest: lock_attempt_n_create)
  ultimately show ?thesis using pass once loop by simp
qed

theorem candidate_create_not_retried_witness:
  "lock_attempt env_create_fails ''/lock'' None None world0 =
     (Continue, None, None,
      \<lparr>n_exists = 0, n_create = 1, n_children = 1,
       trace = [Nanosleep ts, Zoo_get_children ''/lock'',
                Zoo_create ''/lock/x-000000000000000a-'' ZOO_EPHEMERAL_SEQUENCE,
                Print_stderr (''Could not create locking node /lock/x-000000000000000a-''
                              @ newline)]\<rparr>)
   \<and> lock_attempt env_create_fails ''/lock'' None None
         (snd (snd (snd (lock_attempt env_create_fails ''/lock'' None None world0)))) =
       lock_decide env_create_fails ''/lock'' ''x-000000000000000a-0000000000'' None
         \<lparr>n_exists = 0, n_create = 1, n_children = 2,
          trace = [Nanosleep ts, Zoo_get_children ''/lock'',
                   Zoo_create ''/lock/x-000000000000000a-'' ZOO_EPHEMERAL_SEQUENCE,
                   Print_stderr (''Could not create locking node /lock/x-000000000000000a-''
                                 @ newline),
                   Nanosleep ts, Zoo_get_children ''/lock'']\<rparr>
   \<and> lock_loop env_create_fails ''/lock'' 0 None None world0 =
       (Break, 2, Some ''x-000000000000000a-0000000000'',
        Some ''x-000000000000000a-0000000000'',
        \<lparr>n_exists = 0, n_create = 1, n_children = 3,
         trace = [Nanosleep ts, Zoo_get_children ''/lock'',
                  Zoo_create ''/lock/x-000000000000000a-'' ZOO_EPHEMERAL_SEQUENCE,
                  Print_stderr (''Could not create locking node /lock/x-000000000000000a-''
                                @ newline),
                  Nanosleep ts, Zoo_get_children ''/lock'', Zoo_get_children ''/lock'']\<rparr>)"
proof -
  let ?w1 = "\<lparr>n_exists = 0, n_create = 0, n_children = 1,
              trace = [Nanosleep ts, Zoo_get_children ''/lock'']\<rparr>"
  let ?w2 = "\<lparr>n_exists = 0, n_create = 1, n_children = 1,
              trace = [Nanosleep ts, Zoo_get_children ''/lock'',
                       Zoo_create ''/lock/x-000000000000000a-'' ZOO_EPHEMERAL_SEQUENCE,
                       Print_stderr (''Could not create locking node /lock/x-000000000000000a-''
                                     @ newline)]\<rparr>"
  let ?w3 = "\<lparr>n_exists = 0, n_create = 1, n_children = 2,
              trace = [Nanosleep ts, Zoo_get_children ''/lock'',
                       Zoo_create ''/lock/x-000000000000000a-'' ZOO_EPHEMERAL_SEQUENCE,
                       Print_stderr (''Could not create locking node /lock/x-000000000000000a-''
                                     @ newline),
                       Nanosleep ts, Zoo_get_children ''/lock'']\<rparr>"
  let ?w4 = "\<lparr>n_exists = 0, n_create = 1, n_children = 3,
              trace = [Nanosleep ts, Zoo_get_children ''/lock'',
                       Zoo_create ''/lock/x-000000000000000a-'' ZOO_EPHEMERAL_SEQUENCE,
                       Print_stderr (''Could not create locking node /lock/x-000000000000000a-''
                                     @ newline),
                       Nanosleep ts, Zoo_get_children ''/lock'', Zoo_get_children ''/lock'']\<rparr>"
  let ?node = "''x-000000000000000a-0000000000''"
  have listing:
    "retry_getchildren env_create_fails ''/lock'' [] ts maxretry (nanosleep ts world0) =
       (ZOK, [], ?w1)"
    by (simp add: env_create_fails_def retry_getchildren_def retry_getchildren_loop.simps
                  zoo_get_children_def emit_def nanosleep_def world0_def maxretry_def)
  have absent: "lookupnode [] (session_prefix (client_id env_create_fails)) = None"
    by simp
  have failed: "fst (create_replies env_create_fails (n_create ?w1)) \<noteq> ZOK"
    by (simp add: env_create_fails_def)
  have budget: "0 < maxretry" "Suc 0 < maxretry" by (simp_all add: maxretry_def)
  note fact = candidate_create_not_retried [OF listing absent failed, of None None 0]
  from fact have pass: "lock_attempt env_create_fails ''/lock'' None None world0 =
                          (Continue, None, None, ?w2)"
    by (simp add: env_create_fails_def session_prefix_10)
  have listing2:
    "retry_getchildren env_create_fails ''/lock'' [] ts maxretry
       (nanosleep ts (snd (snd (snd (lock_attempt env_create_fails ''/lock'' None None world0)))))
     = (ZOK, [?node], ?w3)"
    by (simp only: pass snd_conv)
       (simp add: env_create_fails_def retry_getchildren_def retry_getchildren_loop.simps
                  zoo_get_children_def emit_def nanosleep_def maxretry_def)
  have found:
    "lookupnode [?node] (session_prefix (client_id env_create_fails)) = Some ?node"
    by (simp add: env_create_fails_def session_prefix_10 byte_def)
  from fact listing2 found
  have reuse: "lock_attempt env_create_fails ''/lock'' None None
                 (snd (snd (snd (lock_attempt env_create_fails ''/lock'' None None world0)))) =
               lock_decide env_create_fails ''/lock'' ?node None ?w3"
    by blast
  have decide: "lock_decide env_create_fails ''/lock'' ?node None ?w3 =
                  (Break, Some ?node, Some ?node, ?w4)"
    by (simp add: env_create_fails_def lock_decide_def retry_getchildren_def
                  retry_getchildren_loop.simps zoo_get_children_def emit_def maxretry_def
                  child_floor_def)
  from fact budget(1)
  have "lock_loop env_create_fails ''/lock'' 0 None None world0 =
        (if Suc 0 < maxretry
         then (case lock_attempt env_create_fails ''/lock'' None None
                      (snd (snd (snd (lock_attempt env_create_fails ''/lock'' None None world0)))) of
                 (c, id1, own1, w3) \<Rightarrow>
                   if c = Continue
                   then lock_loop env_create_fails ''/lock'' (Suc (Suc 0)) id1 own1 w3
                   else (c, Suc (Suc 0), id1, own1, w3))
         else (Continue, Suc 0, None, None,
               snd (snd (snd (lock_attempt env_create_fails ''/lock'' None None world0)))))"
    by blast
  then have loop: "lock_loop env_create_fails ''/lock'' 0 None None world0 =
                   (Break, 2, Some ?node, Some ?node, ?w4)"
    by (simp only: reuse decide budget(2) if_True prod.case ctl.distinct if_False) simp
  from pass reuse loop show ?thesis by simp
qed

section \<open>What a blocked run reports\<close>

lemma child_floor_loop_last:
  "child_floor_loop xs e r =
     (if filter (\<lambda>d. strcmp d e < 0) xs = [] then r
      else Some (last (filter (\<lambda>d. strcmp d e < 0) xs)))"
  by (induction xs arbitrary: r) auto

lemma child_floor_last:
  "child_floor xs e = Some f \<Longrightarrow> f = last (filter (\<lambda>d. strcmp d e < 0) xs)"
  by (simp add: child_floor_def child_floor_loop_last split: if_splits)














section \<open>The delay between attempts\<close>

lemma sleeps_ts_emit:
  "sleeps_ts w \<Longrightarrow> (\<forall>t. e = Nanosleep t \<longrightarrow> t = ts) \<Longrightarrow> sleeps_ts (emit e w)"
  by (auto simp: sleeps_ts_def emit_def)

lemma sleeps_ts_counters [simp]:
  "sleeps_ts (w\<lparr>n_children := a\<rparr>) = sleeps_ts w"
  "sleeps_ts (w\<lparr>n_create := b\<rparr>) = sleeps_ts w"
  "sleeps_ts (w\<lparr>n_exists := c\<rparr>) = sleeps_ts w"
  by (simp_all add: sleeps_ts_def)

lemma retry_getchildren_sleeps:
  "sleeps_ts w \<Longrightarrow> sleeps_ts (snd (snd (retry_getchildren env path v ts retry w)))"
  unfolding retry_getchildren_def
  by (rule retry_loop_preserves [where P = sleeps_ts])
     (simp_all add: sleeps_ts_emit nanosleep_def)


lemma retry_getchildren_sleepsD:
  "retry_getchildren env path v ts retry w = (r, vec, w1) \<Longrightarrow> sleeps_ts w \<Longrightarrow> sleeps_ts w1"
  using retry_getchildren_sleeps [of w env path v retry] by simp

lemma create_path_loop_sleeps:
  "sleeps_ts w \<Longrightarrow> sleeps_ts (snd (snd (create_path_loop env path exists count w)))"
proof (induction env path exists count w rule: create_path_loop.induct)
  case (1 env path exists count w)
  have slept: "sleeps_ts (nanosleep ts w)"
    using "1.prems" by (simp add: nanosleep_def sleeps_ts_emit)
  show ?case
  proof (cases "(exists = ZCONNECTIONLOSS \<or> exists = ZNONODE) \<and> count < maxretry")
    case False
    then have "create_path_loop env path exists count w = (exists, count, w)"
      by (subst create_path_loop.simps) auto
    with "1.prems" show ?thesis by simp
  next
    case True
    show ?thesis
    proof (cases "exists = ZCONNECTIONLOSS")
      case loss: True
      obtain e w1 where call: "zoo_exists env path (nanosleep ts w) = (e, w1)"
        by (cases "zoo_exists env path (nanosleep ts w)")
      then have w1: "sleeps_ts w1"
        using slept by (auto simp: zoo_exists_def sleeps_ts_emit)
      have "create_path_loop env path exists count w = create_path_loop env path e (Suc count) w1"
        using True loss call by (subst create_path_loop.simps) simp
      with "1.IH"(1) [OF True loss call [symmetric] w1] show ?thesis by simp
    next
      case absent: False
      obtain e buf w1 where call: "zoo_create env path Flags_0 (nanosleep ts w) = ((e, buf), w1)"
        by (cases "zoo_create env path Flags_0 (nanosleep ts w)") auto
      then have w1: "sleeps_ts w1"
        using slept by (auto simp: zoo_create_def sleeps_ts_emit)
      have "create_path_loop env path exists count w = create_path_loop env path e (Suc count) w1"
        using True absent call by (subst create_path_loop.simps) simp
      with "1.IH"(2) [OF True absent call [symmetric] refl w1] show ?thesis by simp
    qed
  qed
qed

lemma resolve_candidate_sleeps:
  "resolve_candidate env path prefix vector w = (r, i, w1) \<Longrightarrow> sleeps_ts w \<Longrightarrow> sleeps_ts w1"
  by (auto simp: resolve_candidate_def zoo_create_def sleeps_ts_emit
           split: option.splits prod.splits if_splits)

lemma lock_decide_sleeps:
  "lock_decide env path i own w = (c, i', own', w') \<Longrightarrow> sleeps_ts w \<Longrightarrow> sleeps_ts w'"
  by (auto simp: lock_decide_def sleeps_ts_emit
           dest: retry_getchildren_sleepsD
           split: option.splits prod.splits if_splits list.splits)

lemma lock_attempt_sleeps:
  "lock_attempt env path id0 own w = (c, i', own', w') \<Longrightarrow> sleeps_ts w \<Longrightarrow> sleeps_ts w'"
proof -
  assume run: "lock_attempt env path id0 own w = (c, i', own', w')" and w: "sleeps_ts w"
  obtain ret vector w1
    where listing: "retry_getchildren env path [] ts maxretry (nanosleep ts w) = (ret, vector, w1)"
    by (cases "retry_getchildren env path [] ts maxretry (nanosleep ts w)")
  have "sleeps_ts (nanosleep ts w)"
    using w by (simp add: nanosleep_def sleeps_ts_emit)
  with listing have w1: "sleeps_ts w1" by (rule retry_getchildren_sleepsD)
  obtain ret' id1 w2
    where resolve: "resolve_candidate env path (session_prefix (client_id env)) vector w1
                    = (ret', id1, w2)"
    by (cases "resolve_candidate env path (session_prefix (client_id env)) vector w1")
  with w1 have w2: "sleeps_ts w2" by (auto dest: resolve_candidate_sleeps)
  from run listing resolve w1 w2 show ?thesis
    by (auto simp: lock_attempt_def sleeps_ts_emit dest: lock_decide_sleeps
             split: if_splits option.splits)
qed

lemma lock_loop_sleeps:
  "lock_loop env path count id0 own w = (c, n, i', own', w') \<Longrightarrow> sleeps_ts w \<Longrightarrow> sleeps_ts w'"
proof (induction env path count id0 own w rule: lock_loop.induct)
  case (1 env path count id0 own w)
  show ?case
  proof (cases "count < maxretry")
    case False
    with "1.prems" show ?thesis
      by (subst (asm) lock_loop.simps) auto
  next
    case True
    obtain c1 id1 own1 w1 where pass: "lock_attempt env path id0 own w = (c1, id1, own1, w1)"
      by (cases "lock_attempt env path id0 own w")
    with "1.prems"(2) have w1: "sleeps_ts w1" by (auto dest: lock_attempt_sleeps)
    show ?thesis
    proof (cases "c1 = Continue")
      case again: True
      from "1.prems"(1) True pass again
      have "lock_loop env path (Suc count) id1 own1 w1 = (c, n, i', own', w')"
        by (subst (asm) lock_loop.simps) simp
      from "1.IH" [OF True pass [symmetric] refl refl again this w1] show ?thesis .
    next
      case left: False
      from "1.prems"(1) True pass left have "w' = w1"
        by (subst (asm) lock_loop.simps) simp
      with w1 show ?thesis by simp
    qed
  qed
qed

lemma ts_value: "ts = \<lparr>tv_sec = 0, tv_nsec = 500000\<rparr>"
  by (simp add: ts_def double_to_long_def)

lemma main_sleeps: "sleeps_ts (final (main env hosts path))"
proof (cases "init_errno env")
  case (Some e)
  then show ?thesis
    by (simp add: main_def sleeps_ts_def emit_def world0_def)
next
  case None
  let ?w0 = "emit (Zookeeper_init hosts) world0"
  have w0: "sleeps_ts ?w0" by (simp add: sleeps_ts_def emit_def world0_def)
  obtain ex w1 where first: "zoo_exists env path ?w0 = (ex, w1)"
    by (cases "zoo_exists env path ?w0")
  with w0 have w1: "sleeps_ts w1" by (auto simp: zoo_exists_def sleeps_ts_emit)
  obtain ex' count w2 where folder: "create_path_loop env path ex 0 w1 = (ex', count, w2)"
    by (cases "create_path_loop env path ex 0 w1")
  with create_path_loop_sleeps [OF w1, of env path ex 0] have w2: "sleeps_ts w2" by simp
  obtain c count' i own w3 where loop: "lock_loop env path 0 None None w2 = (c, count', i, own, w3)"
    by (cases "lock_loop env path 0 None None w2")
  with w2 have w3: "sleeps_ts w3" by (auto dest: lock_loop_sleeps)
  from None first folder loop w2 w3 show ?thesis
    by (auto simp: main_def exitnow_def after_lock_loop_def sleeps_ts_emit
             split: ctl.splits option.splits if_splits)
qed

text \<open>
  Claim C9: the delay of every retry sleep is 0 seconds and exactly 500000 nanoseconds,
  half a millisecond.

  \<open>ts\<close> has these two fields, which is less than a millisecond (1000000 nanoseconds),
  and every \<open>nanosleep\<close> of a run of \<open>main\<close>, in either
  loop of \<open>main\<close> and in \<open>retry_getchildren\<close>, sleeps for \<open>ts\<close>.
\<close>

theorem retry_delay_is_half_a_millisecond:
  "tv_sec ts = 0 \<and> tv_nsec ts = 500000
   \<and> tv_sec ts * 1000000000 + tv_nsec ts < 1000000
   \<and> (\<forall>t. Nanosleep t \<in> set (trace (final (main env hosts path))) \<longrightarrow> t = ts)"
  using main_sleeps [of env hosts path] by (simp add: ts_value sleeps_ts_def)

theorem retry_delay_is_half_a_millisecond_witness:
  "Nanosleep \<lparr>tv_sec = 0, tv_nsec = 500000\<rparr>
     \<in> set (trace (final (main env_third_in_line ''zk:2181'' ''/lock'')))
   \<and> ts = \<lparr>tv_sec = 0, tv_nsec = 500000\<rparr>"
  using retry_delay_is_half_a_millisecond [of env_third_in_line "''zk:2181''" "''/lock''"]
  by (simp add: run_third_in_line ts_value)

section \<open>The exit status\<close>

text \<open>
  Claim C10: once the handle is there, every way the program ends (lock held, blocked,
  folder not created, too many retries) returns 0; only a failed initialisation returns
  \<open>errno\<close>.

  The status of a run without a handle is the \<open>errno\<close> of the initialisation. With a
  handle, every run that returns from \<open>main\<close> returns 0, the silent exit of line 310
  included; the runs that do not return are those that read an entry of an empty listing
  or sort a name without \<open>-\<close>.
\<close>

theorem exit_status_zero_unless_no_handle:
  "(\<forall>e. init_errno env = Some e \<longrightarrow>
        outcome (main env hosts path) = Init_failed \<and> exit_status (main env hosts path) = Some e)
   \<and> (init_errno env = None \<longrightarrow>
        outcome (main env hosts path) \<noteq> Init_failed
        \<and> exit_status (main env hosts path)
            = (if outcome (main env hosts path) = Undefined_behaviour then None else Some 0))
   \<and> (\<forall>c. exit_status (main env hosts path) = Some c \<and> c \<noteq> 0 \<longrightarrow>
          init_errno env = Some c)"
proof -
  have no_handle: "outcome (main env hosts path) = Init_failed
                   \<and> exit_status (main env hosts path) = Some e"
    if "init_errno env = Some e" for e
    using that by (simp add: main_def)
  have handle: "outcome (main env hosts path) \<noteq> Init_failed
                \<and> exit_status (main env hosts path)
                    = (if outcome (main env hosts path) = Undefined_behaviour then None
                       else Some 0)"
    if "init_errno env = None"
    using that
    by (auto simp: main_def exitnow_def after_lock_loop_def
             split: ctl.splits option.splits if_splits prod.splits)
  have "init_errno env = Some c"
    if "exit_status (main env hosts path) = Some c" and "c \<noteq> 0" for c
  proof (cases "init_errno env")
    case None
    from handle [OF None] that show ?thesis by (simp split: if_splits)
  next
    case (Some e)
    from no_handle [OF Some] that Some show ?thesis by simp
  qed
  with no_handle handle show ?thesis by blast
qed

theorem exit_status_zero_unless_no_handle_witness:
  "exit_status (main env_empty_store ''zk:2181'' ''/lock'') = Some 0
   \<and> exit_status (main env_third_in_line ''zk:2181'' ''/lock'') = Some 0
   \<and> exit_status (main env_fifth_retry ''zk:2181'' ''/lock'') = Some 0
   \<and> exit_status (main env_last_attempt ''zk:2181'' ''/lock'') = Some 0
   \<and> exit_status (main env_no_handle ''zk:2181'' ''/lock'') = Some 22"
proof -
  note with_handle = exit_status_zero_unless_no_handle [THEN conjunct2, THEN conjunct1, rule_format]
  note without = exit_status_zero_unless_no_handle [THEN conjunct1, rule_format]
  have "exit_status (main env_empty_store ''zk:2181'' ''/lock'') = Some 0"
    using with_handle [OF example_handles(1), of "''zk:2181''" "''/lock''"]
    by (simp add: run_empty_store)
  moreover
  have "exit_status (main env_third_in_line ''zk:2181'' ''/lock'') = Some 0"
    using with_handle [OF example_handles(2), of "''zk:2181''" "''/lock''"]
    by (simp add: run_third_in_line)
  moreover
  have "exit_status (main env_fifth_retry ''zk:2181'' ''/lock'') = Some 0"
    using with_handle [OF example_handles(3), of "''zk:2181''" "''/lock''"]
    by (simp add: run_fifth_retry)
  moreover
  have "exit_status (main env_last_attempt ''zk:2181'' ''/lock'') = Some 0"
    using with_handle [OF example_handles(4), of "''zk:2181''" "''/lock''"]
    by (simp add: run_last_attempt)
  moreover
  have "exit_status (main env_no_handle ''zk:2181'' ''/lock'') = Some 22"
    using without [OF example_handles(5), of "''zk:2181''" "''/lock''"]
    by simp
  ultimately show ?thesis by simp
qed

end
